theory Spec2Isabelle
  imports Main "HOL-Library.Sublist"
begin

section \<open>The Keycloak service facade (src/service.ts)\<close>

text \<open>
  \<^verbatim>\<open>KeycloakService\<close> is a class with mutable fields whose methods call three external
  libraries (keycloak-admin, openid-client, keycloak-connect) and three helper classes of
  the package (RequestManager, ResourceManager, PermissionManager). The embedding is:

  \<^item> the object's fields are a record, \<open>KeycloakService\<close>; a field declared with \<open>?\<close> or
    \<open>!\<close> holds \<open>undefined\<close> until assigned and is an \<open>option\<close>;
  \<^item> \<open>TokenSet\<close> objects live in a store, \<open>token_heap\<close>, and the \<open>tokenSet\<close> field holds a
    reference into it, so that replacing the field and writing to a record are
    different things;
  \<^item> every call that leaves \<open>service.ts\<close> (a network call, a constructor of another
    class, a logger line) appends one \<open>event\<close> to the \<open>effects\<close> of the world, in
    source order;
  \<^item> what an external call answers is a field of the record \<open>externals\<close>: the model
    fixes nothing about the libraries but their signatures, and that the admin client's
    \<open>setAccessToken\<close> stores the token it is given;
  \<^item> a \<open>throw\<close> or a rejected promise is \<open>Inl\<close> of the result; the fields assigned
    before it stay assigned;
  \<^item> an \<open>async\<close> method runs from its call to its return with no other method of the
    same object in between;
  \<^item> the TypeScript types are taken at their word: the configuration document is an
    object, the base URL a string, and the constructors of the other classes return.
    \<open>url.resolve\<close> is a function of its two arguments that returns a string or throws,
    and has no event. The \<open>logger\<close> field is never assigned after its initialiser, which
    runs before the constructor's body; its construction and its lines are effects and
    the field is left out of the record, and so is the \<open>accessDenied\<close> handler the
    constructor installs on the middleware adapter.
\<close>

subsection \<open>Configuration and the objects the service holds\<close>

record ConnectionConfig =
  baseUrl :: string
  realmName :: string

record Credentials =
  clientId :: string
  clientSecret :: string

record KeycloakModuleOptions =
  config :: ConnectionConfig
  credentials :: Credentials

text \<open>The fields of \<open>UMAConfiguration\<close> that \<open>service.ts\<close> reads.\<close>

record UMAConfiguration =
  issuer :: string
  token_endpoint :: string
  resource_registration_endpoint :: string

text \<open>The fields of openid-client's \<open>TokenSet\<close> that \<open>service.ts\<close> reads; all optional.\<close>

record TokenSet =
  access_token :: "string option"
  refresh_token :: "string option"
  expires_at :: "int option"

type_synonym ref = nat

record token_heap =
  cells :: "ref \<Rightarrow> TokenSet"
  allocated :: nat

text \<open>The configuration object handed to \<open>new KeycloakConnect({}, ...)\<close>.\<close>

record Keycloak =
  resource :: string
  realm :: string
  confidential_port :: nat
  ssl_required :: string
  auth_server_url :: string
  secret :: string

record AdminClient =
  connection :: ConnectionConfig
  accessToken :: "string option"

record RequestManager =
  request_baseUrl :: string

datatype ResourceManager = ResourceManager string

datatype PermissionManager = PermissionManager string

datatype Issuer = Issuer string

record Client =
  client_issuer :: Issuer
  client_id :: string
  client_secret :: string

record KeycloakService =
  tokenSet :: "ref option"
  issuerClient :: "Client option"
  service_baseUrl :: string
  requestManager :: RequestManager
  umaConfiguration :: "UMAConfiguration option"
  options :: KeycloakModuleOptions
  connect :: Keycloak
  permissionManager :: "PermissionManager option"
  resourceManager :: "ResourceManager option"
  client :: AdminClient

subsection \<open>Errors, effects and the external libraries\<close>

datatype error = Error string | TypeError string | Rejection string

datatype log_level = Log | LogError | Verbose

text \<open>
  The three strings of \<open>Auth\<close> and \<open>Grant\<close> are the client id, the client secret and the
  grant type of the request object.
\<close>

type_synonym credentials_request = "string \<times> string \<times> string"

datatype event =
    New_Logger string
  | New_KeycloakConnect Keycloak
  | New_AdminClient ConnectionConfig
  | New_RequestManager string
  | Get RequestManager string
  | New_ResourceManager string
  | New_PermissionManager string
  | Auth credentials_request
  | Discover string
  | New_IssuerClient Issuer string string
  | Grant credentials_request
  | Refresh string
  | SetAccessToken string
  | Logged log_level string

record world =
  heap :: token_heap
  effects :: "event list"

text \<open>
  The answers of the code outside \<open>service.ts\<close>. \<open>url_resolve\<close> is Node's \<open>url.resolve\<close>,
  which throws on a URL it cannot parse; \<open>AdminClient_new\<close> is the admin client as the
  constructor of keycloak-admin builds it from the connection configuration (the library
  fills in its defaults); \<open>Client_grant\<close> and \<open>Client_refresh\<close>
  return a reference to a \<open>TokenSet\<close> and may change the store; \<open>AdminClient_auth\<close>
  returns the admin client as the call left it, with the rejection if there was one;
  \<open>TokenSet_expired\<close> is the record's \<open>expired()\<close> method, which reads the clock;
  \<open>number_to_string\<close> is the conversion of a template literal.
\<close>

record externals =
  url_resolve :: "string \<Rightarrow> string \<Rightarrow> error + string"
  AdminClient_new :: "ConnectionConfig \<Rightarrow> AdminClient"
  RequestManager_get :: "RequestManager \<Rightarrow> string \<Rightarrow> error + UMAConfiguration"
  AdminClient_auth :: "AdminClient \<Rightarrow> credentials_request \<Rightarrow> error option \<times> AdminClient"
  Issuer_discover :: "string \<Rightarrow> error + Issuer"
  Client_grant :: "Client \<Rightarrow> credentials_request \<Rightarrow> token_heap \<Rightarrow> (error + ref) \<times> token_heap"
  Client_refresh :: "Client \<Rightarrow> string \<Rightarrow> token_heap \<Rightarrow> (error + ref) \<times> token_heap"
  TokenSet_expired :: "TokenSet \<Rightarrow> bool"
  number_to_string :: "int \<Rightarrow> string"

definition emit :: "event \<Rightarrow> world \<Rightarrow> world" where
  "emit e w = w\<lparr>effects := effects w @ [e]\<rparr>"

text \<open>
  JavaScript truthiness of an optional string and of an optional number: the value
  when the condition \<open>if (v)\<close> holds (\<open>undefined\<close>, the empty string and \<open>0\<close> are falsy).
\<close>

definition truthy_string :: "string option \<Rightarrow> string option" where
  "truthy_string v = (case v of None \<Rightarrow> None | Some s \<Rightarrow> if s = [] then None else Some s)"

definition truthy_number :: "int option \<Rightarrow> int option" where
  "truthy_number v = (case v of None \<Rightarrow> None | Some n \<Rightarrow> if n = 0 then None else Some n)"

text \<open>\<open>AdminClient.setAccessToken(token)\<close> of keycloak-admin stores the bearer token.\<close>

definition setAccessToken :: "AdminClient \<Rightarrow> string \<Rightarrow> AdminClient" where
  "setAccessToken c token = c\<lparr>accessToken := Some token\<rparr>"

subsection \<open>The constructor\<close>

definition invalid_base_url :: string where
  "invalid_base_url = ''Invalid base url. It should start with either http or https.''"

text \<open>
  The field initialiser \<open>logger = new Logger(KeycloakService.name)\<close> runs first. The two
  calls of \<open>url.resolve\<close> (for \<open>this.baseUrl\<close> and for the \<open>auth-server-url\<close> of the adapter's
  configuration) come before the first constructor of another class; when one throws,
  the constructor throws.
\<close>

definition KeycloakService_constructor ::
  "externals \<Rightarrow> KeycloakModuleOptions \<Rightarrow> world \<Rightarrow> (error + KeycloakService) \<times> world" where
  "KeycloakService_constructor ext opts w =
     (let w0 = emit (New_Logger ''KeycloakService'') w
      in if \<not> prefix ''http'' (baseUrl (config opts)) then (Inl (Error invalid_base_url), w0)
         else
           (case url_resolve ext (baseUrl (config opts))
                   (''/auth/realms/'' @ realmName (config opts)) of
              Inl e \<Rightarrow> (Inl e, w0)
            | Inr base \<Rightarrow>
               (case url_resolve ext (baseUrl (config opts)) ''/auth'' of
                  Inl e \<Rightarrow> (Inl e, w0)
                | Inr auth \<Rightarrow>
                   (let keycloak = \<lparr>resource = clientId (credentials opts),
                                    realm = realmName (config opts),
                                    confidential_port = 0,
                                    ssl_required = ''all'',
                                    auth_server_url = auth,
                                    secret = clientSecret (credentials opts)\<rparr>;
                        w1 = emit (New_KeycloakConnect keycloak) w0;
                        w2 = emit (New_AdminClient (config opts)) w1;
                        w3 = emit (New_RequestManager base) w2
                    in (Inr \<lparr>tokenSet = None,
                             issuerClient = None,
                             service_baseUrl = base,
                             requestManager = \<lparr>request_baseUrl = base\<rparr>,
                             umaConfiguration = None,
                             options = opts,
                             connect = keycloak,
                             permissionManager = None,
                             resourceManager = None,
                             client = AdminClient_new ext (config opts)\<rparr>, w3)))))"

subsection \<open>initialize\<close>

definition uma2_path :: string where
  "uma2_path = ''/.well-known/uma2-configuration''"

definition client_credentials :: "KeycloakService \<Rightarrow> credentials_request" where
  "client_credentials s =
     (clientId (credentials (options s)), clientSecret (credentials (options s)),
      ''client_credentials'')"

fun initialize ::
  "externals \<Rightarrow> KeycloakService \<times> world \<Rightarrow> (error + unit) \<times> KeycloakService \<times> world" where
  "initialize ext (s, w) =
     (if umaConfiguration s \<noteq> None then (Inr (), s, w)
      else
        let w1 = emit (Get (requestManager s) uma2_path) w
        in (case RequestManager_get ext (requestManager s) uma2_path of
              Inl e \<Rightarrow> (Inl e, s, w1)
            | Inr data \<Rightarrow>
               (let s1 = s\<lparr>umaConfiguration := Some data\<rparr>;
                    w2 = emit (New_ResourceManager (resource_registration_endpoint data)) w1;
                    s2 = s1\<lparr>resourceManager :=
                             Some (ResourceManager (resource_registration_endpoint data))\<rparr>;
                    w3 = emit (New_PermissionManager (token_endpoint data)) w2;
                    s3 = s2\<lparr>permissionManager :=
                             Some (PermissionManager (token_endpoint data))\<rparr>;
                    w4 = emit (Auth (client_credentials s)) w3
                in (case AdminClient_auth ext (client s3) (client_credentials s) of
                      (Some e, c) \<Rightarrow> (Inl e, s3\<lparr>client := c\<rparr>, w4)
                    | (None, c) \<Rightarrow>
                       (let s4 = s3\<lparr>client := c\<rparr>;
                            w5 = emit (Discover (issuer data)) w4
                        in (case Issuer_discover ext (issuer data) of
                              Inl e \<Rightarrow> (Inl e, s4, w5)
                            | Inr keycloakIssuer \<Rightarrow>
                               (let ic = \<lparr>client_issuer = keycloakIssuer,
                                          client_id = clientId (credentials (options s)),
                                          client_secret = clientSecret (credentials (options s))\<rparr>;
                                    w6 = emit (New_IssuerClient keycloakIssuer
                                            (clientId (credentials (options s)))
                                            (clientSecret (credentials (options s)))) w5;
                                    s5 = s4\<lparr>issuerClient := Some ic\<rparr>;
                                    w7 = emit (Grant (client_credentials s)) w6
                                in (case Client_grant ext ic (client_credentials s) (heap w7) of
                                      (Inl e, h) \<Rightarrow> (Inl e, s5, w7\<lparr>heap := h\<rparr>)
                                    | (Inr a, h) \<Rightarrow>
                                       (let s6 = s5\<lparr>tokenSet := Some a\<rparr>;
                                            w8 = w7\<lparr>heap := h\<rparr>
                                        in (case truthy_number (expires_at (cells h a)) of
                                              Some n \<Rightarrow>
                                                (Inr (), s6,
                                                 emit (Logged Log (''Initial token expires at '' @
                                                         number_to_string ext n)) w8)
                                            | None \<Rightarrow> (Inr (), s6, w8)))))))))))"

subsection \<open>refreshGrant\<close>

datatype grant_result = Token ref | Null | Undefined

definition token_missing :: string where
  "token_missing = ''Token set is missing. Could not refresh grant.''"

definition grant_expired :: string where
  "grant_expired = ''Grant token expired, refreshing.''"

definition refresh_token_missing :: string where
  "refresh_token_missing = ''Could not refresh token. Refresh token is missing.''"

text \<open>
  The method tests \<open>this.tokenSet && !this.tokenSet.expired()\<close> first and \<open>!this.tokenSet\<close>
  second; the case distinction on the field takes the two tests together.
\<close>

fun refreshGrant ::
  "externals \<Rightarrow> KeycloakService \<times> world \<Rightarrow> (error + grant_result) \<times> KeycloakService \<times> world" where
  "refreshGrant ext (s, w) =
     (case tokenSet s of
        None \<Rightarrow> (Inr Null, s, emit (Logged LogError token_missing) w)
      | Some a \<Rightarrow>
         (if \<not> TokenSet_expired ext (cells (heap w) a) then (Inr (Token a), s, w)
          else
            let w1 = emit (Logged Verbose grant_expired) w
            in (case truthy_string (refresh_token (cells (heap w) a)) of
                  None \<Rightarrow> (Inr Null, s, emit (Logged LogError refresh_token_missing) w1)
                | Some rt \<Rightarrow>
                   (case issuerClient s of
                      None \<Rightarrow> (Inr Undefined, s\<lparr>tokenSet := None\<rparr>, w1)
                    | Some ic \<Rightarrow>
                       (let w2 = emit (Refresh rt) w1
                        in (case Client_refresh ext ic rt (heap w2) of
                              (Inl e, h) \<Rightarrow> (Inl e, s, w2\<lparr>heap := h\<rparr>)
                            | (Inr a', h) \<Rightarrow>
                               (let s1 = s\<lparr>tokenSet := Some a'\<rparr>;
                                    w3 = w2\<lparr>heap := h\<rparr>
                                in (case truthy_string (access_token (cells h a')) of
                                      Some t \<Rightarrow>
                                        (Inr (Token a'),
                                         s1\<lparr>client := setAccessToken (client s1) t\<rparr>,
                                         emit (SetAccessToken t) w3)
                                    | None \<Rightarrow> (Inr (Token a'), s1, w3)))))))))"

declare initialize.simps [simp del]

declare refreshGrant.simps [simp del]

subsection \<open>Sequences of calls\<close>

text \<open>
  A caller holds the service and calls its two methods in any order, each call against
  whatever the libraries answer at that moment; a rejected call leaves the service as
  the rejection found it, and the caller goes on.
\<close>

datatype call = Initialize | RefreshGrant

fun perform :: "externals \<Rightarrow> call \<Rightarrow> KeycloakService \<times> world \<Rightarrow> KeycloakService \<times> world" where
  "perform ext Initialize sw = snd (initialize ext sw)"
| "perform ext RefreshGrant sw = snd (refreshGrant ext sw)"

fun run :: "(externals \<times> call) list \<Rightarrow> KeycloakService \<times> world \<Rightarrow> KeycloakService \<times> world" where
  "run [] sw = sw"
| "run ((ext, c) # cs) sw = run cs (perform ext c sw)"

subsection \<open>Reading the effects\<close>

fun is_logged :: "event \<Rightarrow> bool" where
  "is_logged (Logged l m) = True"
| "is_logged e = False"

text \<open>The effects without the logger's lines.\<close>

definition calls :: "event list \<Rightarrow> event list" where
  "calls evs = filter (\<lambda>e. \<not> is_logged e) evs"

text \<open>The calls that go to the identity provider over the network.\<close>

fun is_network :: "event \<Rightarrow> bool" where
  "is_network (Get m p) = True"
| "is_network (Auth r) = True"
| "is_network (Discover u) = True"
| "is_network (Grant r) = True"
| "is_network (Refresh t) = True"
| "is_network e = False"

definition network_calls :: "event list \<Rightarrow> event list" where
  "network_calls evs = filter is_network evs"

text \<open>
  The steps of a first \<open>initialize\<close> in the order the method is specified to take them,
  for the configuration document \<open>d\<close> and the discovered issuer \<open>iss\<close>.
\<close>

definition initialize_calls :: "KeycloakService \<Rightarrow> UMAConfiguration \<Rightarrow> Issuer \<Rightarrow> event list" where
  "initialize_calls s d iss =
     [Get (requestManager s) uma2_path,
      New_ResourceManager (resource_registration_endpoint d),
      New_PermissionManager (token_endpoint d),
      Auth (client_credentials s),
      Discover (issuer d),
      New_IssuerClient iss (clientId (credentials (options s)))
        (clientSecret (credentials (options s))),
      Grant (client_credentials s)]"

text \<open>
  The same steps against the answers of \<open>ext\<close>, following the spec's words (fetch the
  UMA configuration, construct the managers, authenticate the admin client, discover the
  issuer, acquire the token by a client-credentials grant): each step in its turn, the
  call ending with the first step that is rejected.
\<close>

definition specified_calls :: "externals \<Rightarrow> KeycloakService \<Rightarrow> event list" where
  "specified_calls ext s =
     Get (requestManager s) uma2_path #
     (case RequestManager_get ext (requestManager s) uma2_path of
        Inl e \<Rightarrow> []
      | Inr d \<Rightarrow>
          [New_ResourceManager (resource_registration_endpoint d),
           New_PermissionManager (token_endpoint d),
           Auth (client_credentials s)] @
          (case fst (AdminClient_auth ext (client s) (client_credentials s)) of
             Some e \<Rightarrow> []
           | None \<Rightarrow>
               Discover (issuer d) #
               (case Issuer_discover ext (issuer d) of
                  Inl e \<Rightarrow> []
                | Inr iss \<Rightarrow>
                    [New_IssuerClient iss (clientId (credentials (options s)))
                       (clientSecret (credentials (options s))),
                     Grant (client_credentials s)])))"

subsection \<open>The store of token records\<close>

text \<open>
  openid-client is not part of the repository. What the statements about the store need
  of it is a hypothesis: \<open>grant\<close> and \<open>refresh\<close> answer with a record they have just
  created and write to no record that existed before the call.
\<close>

definition allocates_fresh :: "(token_heap \<Rightarrow> (error + ref) \<times> token_heap) \<Rightarrow> bool" where
  "allocates_fresh f =
     (\<forall>h. case f h of (r, h') \<Rightarrow>
        allocated h \<le> allocated h' \<and>
        (\<forall>a<allocated h. cells h' a = cells h a) \<and>
        (case r of Inl e \<Rightarrow> True | Inr a \<Rightarrow> allocated h \<le> a \<and> a < allocated h'))"

definition library_allocates :: "externals \<Rightarrow> bool" where
  "library_allocates ext =
     ((\<forall>ic req. allocates_fresh (Client_grant ext ic req)) \<and>
      (\<forall>ic rt. allocates_fresh (Client_refresh ext ic rt)))"

text \<open>Every record that existed in \<open>w\<close> has the same fields in \<open>w'\<close>.\<close>

definition records_kept :: "world \<Rightarrow> world \<Rightarrow> bool" where
  "records_kept w w' =
     (allocated (heap w) \<le> allocated (heap w') \<and>
      (\<forall>a<allocated (heap w). cells (heap w') a = cells (heap w) a))"

text \<open>The field value \<open>v\<close> is a reference to a record created between \<open>w\<close> and \<open>w'\<close>.\<close>

definition new_record :: "world \<Rightarrow> world \<Rightarrow> ref option \<Rightarrow> bool" where
  "new_record w w' v =
     (case v of None \<Rightarrow> False | Some a \<Rightarrow> allocated (heap w) \<le> a \<and> a < allocated (heap w'))"

text \<open>A service that holds a token set also holds the issuer client that granted it.\<close>

definition token_has_client :: "KeycloakService \<Rightarrow> bool" where
  "token_has_client s = (tokenSet s = None \<or> issuerClient s \<noteq> None)"

subsection \<open>A concrete deployment\<close>

definition example_options :: KeycloakModuleOptions where
  "example_options =
     \<lparr>config = \<lparr>baseUrl = ''https://sso.example.org'', realmName = ''demo''\<rparr>,
      credentials = \<lparr>clientId = ''backend'', clientSecret = ''s3cr3t''\<rparr>\<rparr>"

definition example_uma :: UMAConfiguration where
  "example_uma =
     \<lparr>issuer = ''https://sso.example.org/auth/realms/demo'',
      token_endpoint = ''https://sso.example.org/auth/realms/demo/token'',
      resource_registration_endpoint = ''https://sso.example.org/auth/realms/demo/resource_set''\<rparr>"

definition token :: "string \<Rightarrow> string option \<Rightarrow> int \<Rightarrow> TokenSet" where
  "token a r e = \<lparr>access_token = Some a, refresh_token = r, expires_at = Some e\<rparr>"

definition store_token :: "TokenSet \<Rightarrow> token_heap \<Rightarrow> (error + ref) \<times> token_heap" where
  "store_token t h =
     (Inr (allocated h),
      h\<lparr>cells := (cells h)(allocated h := t), allocated := Suc (allocated h)\<rparr>)"

text \<open>
  An identity provider that answers every request, seen at the time \<open>now\<close>: the granted
  token expires at 1300, a refreshed one at 1600. \<open>url.resolve\<close> joins the base URL and
  the path, and throws on the host name \<open>xn--a.example.org\<close>, which Node refuses.
\<close>

definition example_externals :: "int \<Rightarrow> externals" where
  "example_externals now =
     \<lparr>url_resolve = (\<lambda>from to. if from = ''http://xn--a.example.org''
                               then Inl (TypeError ''Invalid URL'') else Inr (from @ to)),
      AdminClient_new =
        (\<lambda>c. \<lparr>connection =
                 \<lparr>baseUrl = (if baseUrl c = [] then ''http://127.0.0.1:8180/auth''
                              else baseUrl c),
                  realmName = (if realmName c = [] then ''master'' else realmName c)\<rparr>,
               accessToken = None\<rparr>),
      RequestManager_get = (\<lambda>m p. Inr example_uma),
      AdminClient_auth = (\<lambda>c r. (None, c\<lparr>accessToken := Some ''admin-1''\<rparr>)),
      Issuer_discover = (\<lambda>u. Inr (Issuer u)),
      Client_grant = (\<lambda>c r. store_token (token ''access-1'' (Some ''refresh-1'') 1300)),
      Client_refresh = (\<lambda>c r. store_token (token ''access-2'' (Some ''refresh-2'') 1600)),
      TokenSet_expired = (\<lambda>t. case expires_at t of None \<Rightarrow> False | Some e \<Rightarrow> e \<le> now),
      number_to_string = (\<lambda>n. ''<number>'')\<rparr>"

text \<open>The same provider refusing the admin client's credentials.\<close>

definition rejecting_externals :: externals where
  "rejecting_externals =
     (example_externals 1000)\<lparr>AdminClient_auth := (\<lambda>c r. (Some (Rejection ''401''), c))\<rparr>"

definition empty_world :: world where
  "empty_world =
     \<lparr>heap = \<lparr>cells = (\<lambda>a. \<lparr>access_token = None, refresh_token = None, expires_at = None\<rparr>),
              allocated = 0\<rparr>,
      effects = []\<rparr>"

text \<open>A world whose store holds the one record \<open>t\<close>, at reference 0.\<close>

definition world_of :: "TokenSet \<Rightarrow> world" where
  "world_of t = \<lparr>heap = \<lparr>cells = (\<lambda>a. t), allocated = 1\<rparr>, effects = []\<rparr>"

text \<open>The service as the constructor leaves it for \<open>example_options\<close>.\<close>

definition example_service :: KeycloakService where
  "example_service =
     \<lparr>tokenSet = None,
      issuerClient = None,
      service_baseUrl = ''https://sso.example.org/auth/realms/demo'',
      requestManager = \<lparr>request_baseUrl = ''https://sso.example.org/auth/realms/demo''\<rparr>,
      umaConfiguration = None,
      options = example_options,
      connect = \<lparr>resource = ''backend'', realm = ''demo'', confidential_port = 0,
                 ssl_required = ''all'', auth_server_url = ''https://sso.example.org/auth'',
                 secret = ''s3cr3t''\<rparr>,
      permissionManager = None,
      resourceManager = None,
      client = \<lparr>connection = config example_options, accessToken = None\<rparr>\<rparr>"

text \<open>The world after the constructor has run in \<open>empty_world\<close>.\<close>

definition constructed_world :: world where
  "constructed_world =
     empty_world\<lparr>effects := [New_Logger ''KeycloakService'',
                              New_KeycloakConnect (connect example_service),
                              New_AdminClient (config example_options),
                              New_RequestManager (service_baseUrl example_service)]\<rparr>"

definition example_client :: Client where
  "example_client =
     \<lparr>client_issuer = Issuer ''https://sso.example.org/auth/realms/demo'',
      client_id = ''backend'', client_secret = ''s3cr3t''\<rparr>"

text \<open>The service and the world after \<open>initialize\<close> against \<open>example_externals\<close>.\<close>

definition initialized_service :: KeycloakService where
  "initialized_service =
     example_service
       \<lparr>tokenSet := Some 0,
        issuerClient := Some example_client,
        umaConfiguration := Some example_uma,
        permissionManager := Some (PermissionManager (token_endpoint example_uma)),
        resourceManager := Some (ResourceManager (resource_registration_endpoint example_uma)),
        client := \<lparr>connection = config example_options, accessToken = Some ''admin-1''\<rparr>\<rparr>"

definition initialized_world :: world where
  "initialized_world =
     \<lparr>heap = \<lparr>cells = (cells (heap empty_world))
                        (0 := token ''access-1'' (Some ''refresh-1'') 1300),
              allocated = 1\<rparr>,
      effects = effects constructed_world @
                initialize_calls example_service example_uma (Issuer (issuer example_uma)) @
                [Logged Log ''Initial token expires at <number>'']\<rparr>"

text \<open>
  A provider whose client-credentials grant comes without a refresh token, and the world
  after \<open>initialize\<close> against it.
\<close>

definition bare_externals :: "int \<Rightarrow> externals" where
  "bare_externals now =
     (example_externals now)\<lparr>Client_grant := (\<lambda>c r. store_token (token ''access-1'' None 1300))\<rparr>"

definition bare_world :: world where
  "bare_world =
     \<lparr>heap = \<lparr>cells = (cells (heap empty_world))(0 := token ''access-1'' None 1300),
              allocated = 1\<rparr>,
      effects = effects initialized_world\<rparr>"

text \<open>
  A service that holds a token but never got an issuer client. No sequence of calls
  leads from the constructor to such a service (\<open>token_has_client\<close> holds throughout).
\<close>

definition orphan_service :: KeycloakService where
  "orphan_service = example_service\<lparr>tokenSet := Some 0\<rparr>"

text \<open>The service and the world after a refresh of the expired token.\<close>

definition refreshed_service :: KeycloakService where
  "refreshed_service =
     initialized_service
       \<lparr>tokenSet := Some 1,
        client := \<lparr>connection = config example_options, accessToken = Some ''access-2''\<rparr>\<rparr>"

definition refreshed_world :: world where
  "refreshed_world =
     \<lparr>heap = \<lparr>cells = (cells (heap initialized_world))
                        (1 := token ''access-2'' (Some ''refresh-2'') 1600),
              allocated = 2\<rparr>,
      effects = effects initialized_world @
                [Logged Verbose grant_expired, Refresh ''refresh-1'', SetAccessToken ''access-2'']\<rparr>"

section \<open>Properties\<close>

subsection \<open>Auxiliary facts\<close>

lemmas example_defs = example_options_def example_uma_def token_def store_token_def
  example_externals_def rejecting_externals_def empty_world_def world_of_def
  example_service_def constructed_world_def example_client_def initialized_service_def
  initialized_world_def
  orphan_service_def initialize_calls_def uma2_path_def client_credentials_def

lemma constructor_example:
  "KeycloakService_constructor (example_externals now) example_options empty_world =
     (Inr example_service, constructed_world)"
  by (simp add: KeycloakService_constructor_def example_defs Let_def emit_def)

lemma initialize_example:
  "initialize (example_externals now) (example_service, constructed_world) =
     (Inr (), initialized_service, initialized_world)"
  by (simp add: initialize.simps example_defs Let_def emit_def truthy_number_def)

lemma initialize_rejected_example:
  "initialize rejecting_externals (example_service, constructed_world) =
     (Inl (Rejection ''401''),
      example_service
        \<lparr>umaConfiguration := Some example_uma,
         permissionManager := Some (PermissionManager (token_endpoint example_uma)),
         resourceManager := Some (ResourceManager (resource_registration_endpoint example_uma))\<rparr>,
      constructed_world
        \<lparr>effects := effects constructed_world @
                    take 4 (initialize_calls example_service example_uma
                              (Issuer (issuer example_uma)))\<rparr>)"
  by (simp add: initialize.simps example_defs Let_def emit_def)

lemma library_allocates_example: "library_allocates (example_externals now)"
  by (simp add: library_allocates_def allocates_fresh_def example_defs)

lemma initialize_noop:
  "umaConfiguration s \<noteq> None \<Longrightarrow> initialize ext (s, w) = (Inr (), s, w)"
  by (simp add: initialize.simps)

lemma initialize_first:
  assumes "umaConfiguration s = None" and "initialize ext (s, w) = (r, s', w')"
  shows "\<exists>evs d iss.
           effects w' = effects w @ evs \<and>
           prefix (calls evs) (initialize_calls s d iss) \<and>
           (r = Inr () \<longrightarrow>
              calls evs = initialize_calls s d iss \<and> umaConfiguration s' = Some d \<and>
              RequestManager_get ext (requestManager s) uma2_path = Inr d \<and>
              Issuer_discover ext (issuer d) = Inr iss)"
  using assms
  apply (simp add: initialize.simps Let_def emit_def calls_def initialize_calls_def
      split: sum.splits prod.splits option.splits)
  apply auto
  done

lemma network_calls_calls: "network_calls (calls evs) = network_calls evs"
proof (induction evs)
  case Nil
  show ?case by (simp add: network_calls_def calls_def)
next
  case (Cons e evs)
  then show ?case by (cases e) (simp_all add: network_calls_def calls_def)
qed

lemma network_calls_initialize:
  "network_calls (initialize_calls s d iss) =
     [Get (requestManager s) uma2_path, Auth (client_credentials s), Discover (issuer d),
      Grant (client_credentials s)]"
  by (simp add: network_calls_def initialize_calls_def)

lemma initialize_options: "options (fst (snd (initialize ext sw))) = options (fst sw)"
  by (cases sw) (simp add: initialize.simps Let_def split: sum.splits prod.splits option.splits)

lemma refreshGrant_options: "options (fst (snd (refreshGrant ext sw))) = options (fst sw)"
  by (cases sw) (simp add: refreshGrant.simps Let_def split: sum.splits prod.splits option.splits)

lemma perform_options: "options (fst (perform ext c sw)) = options (fst sw)"
  by (cases c) (simp_all add: initialize_options refreshGrant_options)

lemma run_options: "options (fst (run cs sw)) = options (fst sw)"
proof (induction cs arbitrary: sw)
  case Nil
  show ?case by simp
next
  case (Cons x cs)
  obtain ext c where x: "x = (ext, c)" by (cases x)
  show ?case by (simp add: x Cons.IH perform_options)
qed

lemma allocates_freshD:
  "allocates_fresh f \<Longrightarrow> f h = (r, h') \<Longrightarrow>
     allocated h \<le> allocated h' \<and> (\<forall>a<allocated h. cells h' a = cells h a) \<and>
     (\<forall>a. r = Inr a \<longrightarrow> allocated h \<le> a \<and> a < allocated h')"
  unfolding allocates_fresh_def by (erule allE [of _ h]) (auto split: sum.splits)

lemma initialize_tokens:
  assumes "library_allocates ext" and "initialize ext (s, w) = (r, s', w')"
  shows "records_kept w w' \<and> (tokenSet s' = tokenSet s \<or> new_record w w' (tokenSet s'))"
proof (cases "umaConfiguration s \<noteq> None")
  case True
  with assms(2) show ?thesis by (auto simp: initialize.simps records_kept_def)
next
  case False
  from assms(1) have g: "\<And>ic req. allocates_fresh (Client_grant ext ic req)"
    unfolding library_allocates_def by blast
  show ?thesis using assms(2) False
    by (auto simp: initialize.simps Let_def emit_def records_kept_def new_record_def
        split: sum.splits prod.splits option.splits dest!: allocates_freshD [OF g])
qed

lemma refreshGrant_tokens:
  assumes "library_allocates ext" and "refreshGrant ext (s, w) = (r, s', w')"
  shows "records_kept w w' \<and>
         (tokenSet s' = tokenSet s \<or> new_record w w' (tokenSet s') \<or>
          (tokenSet s' = None \<and> issuerClient s = None))"
proof -
  from assms(1) have g: "\<And>ic rt. allocates_fresh (Client_refresh ext ic rt)"
    unfolding library_allocates_def by blast
  show ?thesis using assms(2)
    by (auto simp: refreshGrant.simps Let_def emit_def records_kept_def new_record_def
        split: sum.splits prod.splits option.splits if_splits dest!: allocates_freshD [OF g])
qed

lemma initialize_rejected_after_fetch:
  assumes "umaConfiguration s0 = None"
    and "RequestManager_get ext (requestManager s0) uma2_path = Inr d"
    and "initialize ext (s0, w0) = (Inl e, s1, w1)"
  shows "umaConfiguration s1 = Some d \<and> tokenSet s1 = tokenSet s0"
  using assms
  by (auto simp: initialize.simps Let_def split: sum.splits prod.splits option.splits)

lemma perform_without_token:
  assumes "umaConfiguration s \<noteq> None" and "tokenSet s = None"
  shows "fst (perform ext c (s, w)) = s \<and>
         network_calls (effects (snd (perform ext c (s, w)))) = network_calls (effects w)"
proof (cases c)
  case Initialize
  with assms(1) show ?thesis by (simp add: initialize_noop)
next
  case RefreshGrant
  with assms(2) show ?thesis by (simp add: refreshGrant.simps emit_def network_calls_def)
qed

lemma run_without_token:
  assumes "umaConfiguration s \<noteq> None" and "tokenSet s = None"
  shows "fst (run cs (s, w)) = s \<and>
         network_calls (effects (snd (run cs (s, w)))) = network_calls (effects w)"
proof (induction cs arbitrary: w)
  case Nil
  show ?case by simp
next
  case (Cons x cs)
  obtain ext c where x: "x = (ext, c)" by (cases x)
  from perform_without_token [OF assms, of ext c w] obtain w'
    where p: "perform ext c (s, w) = (s, w')"
      and n: "network_calls (effects w') = network_calls (effects w)"
    by (cases "perform ext c (s, w)") auto
  from Cons.IH [of w'] show ?case by (simp add: x p n)
qed

lemma constructor_returns:
  assumes "KeycloakService_constructor ext opts w = (Inr s, w')"
  shows "options s = opts \<and> tokenSet s = None \<and> issuerClient s = None \<and>
         umaConfiguration s = None"
  using assms
  by (auto simp: KeycloakService_constructor_def Let_def split: if_splits sum.splits)

lemma constructor_has_client:
  "KeycloakService_constructor ext opts w = (Inr s, w') \<Longrightarrow> token_has_client s"
  by (simp add: constructor_returns token_has_client_def)

lemma initialize_specified:
  assumes "umaConfiguration s = None" and "initialize ext (s, w) = (r, s', w')"
  shows "\<exists>evs. effects w' = effects w @ evs \<and> calls evs = specified_calls ext s"
  using assms
  by (auto simp: initialize.simps Let_def emit_def calls_def specified_calls_def
      split: sum.splits prod.splits option.splits)

lemma initialize_answered:
  assumes "umaConfiguration s = None"
    and "RequestManager_get ext (requestManager s) uma2_path = Inr d"
    and "AdminClient_auth ext (client s) (client_credentials s) = (None, c)"
    and "Issuer_discover ext (issuer d) = Inr iss"
    and "Client_grant ext
           \<lparr>client_issuer = iss, client_id = clientId (credentials (options s)),
            client_secret = clientSecret (credentials (options s))\<rparr>
           (client_credentials s) (heap w) = (Inr a, h)"
  shows "fst (initialize ext (s, w)) = Inr () \<and>
         tokenSet (fst (snd (initialize ext (s, w)))) = Some a \<and>
         specified_calls ext s = initialize_calls s d iss"
  using assms
  by (simp add: initialize.simps Let_def emit_def specified_calls_def initialize_calls_def
      split: option.splits)

lemma initialize_has_client:
  "token_has_client (fst sw) \<Longrightarrow> token_has_client (fst (snd (initialize ext sw)))"
  by (cases sw)
    (simp add: initialize.simps Let_def token_has_client_def
      split: sum.splits prod.splits option.splits)

lemma refreshGrant_has_client:
  "token_has_client (fst sw) \<Longrightarrow> token_has_client (fst (snd (refreshGrant ext sw)))"
  by (cases sw)
    (auto simp: refreshGrant.simps Let_def token_has_client_def
      split: sum.splits prod.splits option.splits)

lemma perform_has_client:
  "token_has_client (fst sw) \<Longrightarrow> token_has_client (fst (perform ext c sw))"
  by (cases c) (simp_all add: initialize_has_client refreshGrant_has_client)

lemma run_has_client: "token_has_client (fst sw) \<Longrightarrow> token_has_client (fst (run cs sw))"
proof (induction cs arbitrary: sw)
  case Nil
  then show ?case by simp
next
  case (Cons x cs)
  obtain ext c where x: "x = (ext, c)" by (cases x)
  from Cons.prems have "token_has_client (fst (perform ext c sw))"
    by (rule perform_has_client)
  then show ?case by (simp add: x Cons.IH)
qed

lemma perform_tokens:
  assumes "library_allocates ext" and "perform ext c (s, w) = (s', w')"
  shows "records_kept w w' \<and>
         (tokenSet s' = tokenSet s \<or> new_record w w' (tokenSet s') \<or>
          (tokenSet s' = None \<and> issuerClient s = None))"
proof (cases c)
  case Initialize
  with assms(2) have "initialize ext (s, w) = (fst (initialize ext (s, w)), s', w')"
    by (simp add: prod_eq_iff)
  from initialize_tokens [OF assms(1) this] show ?thesis by blast
next
  case RefreshGrant
  with assms(2) have "refreshGrant ext (s, w) = (fst (refreshGrant ext (s, w)), s', w')"
    by (simp add: prod_eq_iff)
  from refreshGrant_tokens [OF assms(1) this] show ?thesis by blast
qed

lemma initialize_bare_example:
  "initialize (bare_externals now) (example_service, constructed_world) =
     (Inr (), initialized_service, bare_world)"
  by (simp add: initialize.simps example_defs bare_externals_def bare_world_def Let_def emit_def
      truthy_number_def)

lemma refreshGrant_example:
  "refreshGrant (example_externals 2000) (initialized_service, initialized_world) =
     (Inr (Token 1), refreshed_service, refreshed_world)"
  by (simp add: refreshGrant.simps example_defs refreshed_service_def refreshed_world_def
      Let_def emit_def truthy_string_def setAccessToken_def)

subsection \<open>The constructor\<close>

text \<open>
  C4, as stated, fails in its second half: a base URL that starts with \<open>http\<close> and that
  \<open>url.resolve\<close> cannot parse makes the constructor throw.
\<close>

theorem constructor_throws_after_prefix:
  "prefix ''http''
     (baseUrl (config (example_options
        \<lparr>config := \<lparr>baseUrl = ''http://xn--a.example.org'', realmName = ''demo''\<rparr>\<rparr>))) \<and>
   KeycloakService_constructor (example_externals 1000)
       (example_options\<lparr>config := \<lparr>baseUrl = ''http://xn--a.example.org'', realmName = ''demo''\<rparr>\<rparr>)
       empty_world =
     (Inl (TypeError ''Invalid URL''), emit (New_Logger ''KeycloakService'') empty_world)"
  by (simp add: KeycloakService_constructor_def example_externals_def example_options_def)

text \<open>
  C4, amended. The constructor throws its own error for every configuration whose base
  URL starts neither with \<open>http\<close> nor with \<open>https\<close>. For a base URL that starts with one
  of them the prefix is all the constructor itself looks at: it returns a service
  holding the options when \<open>url.resolve\<close> returns for both paths the constructor
  resolves, and it throws what \<open>url.resolve\<close> throws otherwise. Whenever it throws, its
  one effect is the logger the field initialiser built.
\<close>

theorem constructor_checks_prefix_then_resolves:
  "(\<not> (prefix ''http'' (baseUrl (config opts)) \<or> prefix ''https'' (baseUrl (config opts))) \<longrightarrow>
      KeycloakService_constructor ext opts w =
        (Inl (Error invalid_base_url), emit (New_Logger ''KeycloakService'') w)) \<and>
   (prefix ''http'' (baseUrl (config opts)) \<or> prefix ''https'' (baseUrl (config opts)) \<longrightarrow>
      (case url_resolve ext (baseUrl (config opts))
              (''/auth/realms/'' @ realmName (config opts)) of
         Inl e \<Rightarrow>
           KeycloakService_constructor ext opts w =
             (Inl e, emit (New_Logger ''KeycloakService'') w)
       | Inr base \<Rightarrow>
          (case url_resolve ext (baseUrl (config opts)) ''/auth'' of
             Inl e \<Rightarrow>
               KeycloakService_constructor ext opts w =
                 (Inl e, emit (New_Logger ''KeycloakService'') w)
           | Inr auth \<Rightarrow>
               (\<exists>s w'. KeycloakService_constructor ext opts w = (Inr s, w') \<and>
                       options s = opts \<and> service_baseUrl s = base \<and>
                       auth_server_url (connect s) = auth))))"
proof -
  have "prefix ''http'' ''https''"
    by simp
  then have "prefix ''http'' (baseUrl (config opts))"
    if "prefix ''https'' (baseUrl (config opts))"
    using that by (rule prefix_order.trans)
  then show ?thesis
    by (auto simp: KeycloakService_constructor_def Let_def split: sum.splits)
qed

theorem constructor_checks_prefix_then_resolves_witness:
  "KeycloakService_constructor (example_externals 1000)
       (example_options\<lparr>config := \<lparr>baseUrl = ''sso.example.org'', realmName = ''demo''\<rparr>\<rparr>)
       empty_world =
     (Inl (Error invalid_base_url), emit (New_Logger ''KeycloakService'') empty_world) \<and>
   KeycloakService_constructor (example_externals 1000)
       (example_options\<lparr>config := \<lparr>baseUrl = ''http://xn--a.example.org'', realmName = ''demo''\<rparr>\<rparr>)
       empty_world =
     (Inl (TypeError ''Invalid URL''), emit (New_Logger ''KeycloakService'') empty_world) \<and>
   (\<exists>s w'. KeycloakService_constructor (example_externals 1000)
              (example_options\<lparr>config := \<lparr>baseUrl = ''http:'', realmName = ''demo''\<rparr>\<rparr>)
              empty_world = (Inr s, w') \<and>
            options s = example_options\<lparr>config := \<lparr>baseUrl = ''http:'', realmName = ''demo''\<rparr>\<rparr> \<and>
            service_baseUrl s = ''http:/auth/realms/demo'' \<and>
            auth_server_url (connect s) = ''http:/auth'')"
proof -
  let ?bad = "example_options\<lparr>config := \<lparr>baseUrl = ''sso.example.org'', realmName = ''demo''\<rparr>\<rparr>"
  let ?odd = "example_options
                \<lparr>config := \<lparr>baseUrl = ''http://xn--a.example.org'', realmName = ''demo''\<rparr>\<rparr>"
  let ?good = "example_options\<lparr>config := \<lparr>baseUrl = ''http:'', realmName = ''demo''\<rparr>\<rparr>"
  from constructor_checks_prefix_then_resolves [of ?bad "example_externals 1000" empty_world]
  have bad: "KeycloakService_constructor (example_externals 1000) ?bad empty_world =
               (Inl (Error invalid_base_url), emit (New_Logger ''KeycloakService'') empty_world)"
    by simp
  from constructor_checks_prefix_then_resolves [of ?odd "example_externals 1000" empty_world]
  have odd: "KeycloakService_constructor (example_externals 1000) ?odd empty_world =
               (Inl (TypeError ''Invalid URL''), emit (New_Logger ''KeycloakService'') empty_world)"
    by (simp add: example_externals_def)
  from constructor_checks_prefix_then_resolves [of ?good "example_externals 1000" empty_world]
  have good: "\<exists>s w'. KeycloakService_constructor (example_externals 1000) ?good empty_world =
                        (Inr s, w') \<and>
                      options s = ?good \<and> service_baseUrl s = ''http:/auth/realms/demo'' \<and>
                      auth_server_url (connect s) = ''http:/auth''"
    by (simp add: example_externals_def)
  from bad odd good show ?thesis by blast
qed

subsection \<open>initialize\<close>

text \<open>
  C3. Once \<open>initialize\<close> has returned, a second call returns at once, whatever the
  provider would answer: it changes neither the service nor the store and has no effect.
  When the first call started without a UMA configuration, the network calls of the two
  calls together are the four of the first, each made once.
\<close>

theorem initialize_idempotent:
  assumes "initialize ext1 (s0, w0) = (Inr (), s1, w1)"
  shows "initialize ext2 (s1, w1) = (Inr (), s1, w1) \<and>
         (umaConfiguration s0 = None \<longrightarrow>
            (\<exists>d. umaConfiguration s1 = Some d \<and>
                 network_calls (drop (length (effects w0))
                                  (effects (snd (snd (initialize ext2 (s1, w1)))))) =
                   [Get (requestManager s0) uma2_path, Auth (client_credentials s0),
                    Discover (issuer d), Grant (client_credentials s0)]))"
proof -
  have u: "umaConfiguration s1 \<noteq> None"
  proof (cases "umaConfiguration s0 = None")
    case True
    from initialize_first [OF True assms] show ?thesis by auto
  next
    case False
    with assms show ?thesis by (simp add: initialize.simps)
  qed
  then have second: "initialize ext2 (s1, w1) = (Inr (), s1, w1)"
    by (rule initialize_noop)
  have "\<exists>d. umaConfiguration s1 = Some d \<and>
            network_calls (drop (length (effects w0)) (effects w1)) =
              [Get (requestManager s0) uma2_path, Auth (client_credentials s0),
               Discover (issuer d), Grant (client_credentials s0)]"
    if first: "umaConfiguration s0 = None"
  proof -
    from initialize_first [OF first assms] obtain evs d iss
      where evs: "effects w1 = effects w0 @ evs"
        and all: "calls evs = initialize_calls s0 d iss"
        and d: "umaConfiguration s1 = Some d"
      by auto
    have "network_calls evs = network_calls (initialize_calls s0 d iss)"
      using network_calls_calls [of evs] all by simp
    with evs d show ?thesis
      by (simp add: network_calls_initialize)
  qed
  with second show ?thesis by simp
qed

theorem initialize_idempotent_witness:
  "initialize (example_externals 1000) (example_service, constructed_world) =
     (Inr (), initialized_service, initialized_world) \<and>
   initialize rejecting_externals (initialized_service, initialized_world) =
     (Inr (), initialized_service, initialized_world) \<and>
   network_calls (drop (length (effects constructed_world)) (effects initialized_world)) =
     [Get (requestManager example_service) uma2_path, Auth (client_credentials example_service),
      Discover (issuer example_uma), Grant (client_credentials example_service)]"
proof -
  have u: "umaConfiguration example_service = None"
    and d: "umaConfiguration initialized_service = Some example_uma"
    by (simp_all add: example_defs)
  note twice = initialize_idempotent [OF initialize_example [of 1000], of rejecting_externals]
  from twice
  have second: "initialize rejecting_externals (initialized_service, initialized_world) =
                  (Inr (), initialized_service, initialized_world)"
    by (rule conjunct1)
  from twice [THEN conjunct2] u d
  have once: "network_calls (drop (length (effects constructed_world))
                 (effects (snd (snd (initialize rejecting_externals
                    (initialized_service, initialized_world)))))) =
               [Get (requestManager example_service) uma2_path,
                Auth (client_credentials example_service),
                Discover (issuer example_uma), Grant (client_credentials example_service)]"
    by simp
  from once
  have "network_calls (drop (length (effects constructed_world)) (effects initialized_world)) =
               [Get (requestManager example_service) uma2_path,
                Auth (client_credentials example_service),
                Discover (issuer example_uma), Grant (client_credentials example_service)]"
    by (simp add: second)
  with second initialize_example [of 1000] show ?thesis by simp
qed

text \<open>
  C6. A first call of \<open>initialize\<close> makes its calls in this order: the request for the
  UMA configuration document, the construction of the resource manager and of the
  permission manager, the admin client's authentication with the client credentials, the
  discovery of the issuer named by the document, the construction of the issuer's client
  and its client-credentials grant. It makes each of them in its turn up to the first
  that is rejected, and no other call; when the provider answers all four requests the
  call returns, holds the granted token and has made all seven.
\<close>

theorem initialize_order:
  assumes "umaConfiguration s = None" and "initialize ext (s, w) = (r, s', w')"
  shows "\<exists>evs d iss.
           effects w' = effects w @ evs \<and>
           calls evs = specified_calls ext s \<and>
           prefix (calls evs) (initialize_calls s d iss) \<and>
           (r = Inr () \<longrightarrow>
              calls evs = initialize_calls s d iss \<and>
              RequestManager_get ext (requestManager s) uma2_path = Inr d \<and>
              Issuer_discover ext (issuer d) = Inr iss) \<and>
           (RequestManager_get ext (requestManager s) uma2_path = Inr d0 \<and>
            AdminClient_auth ext (client s) (client_credentials s) = (None, c0) \<and>
            Issuer_discover ext (issuer d0) = Inr iss0 \<and>
            Client_grant ext
              \<lparr>client_issuer = iss0, client_id = clientId (credentials (options s)),
               client_secret = clientSecret (credentials (options s))\<rparr>
              (client_credentials s) (heap w) = (Inr a0, h0) \<longrightarrow>
              r = Inr () \<and> tokenSet s' = Some a0 \<and> calls evs = initialize_calls s d0 iss0)"
proof -
  from initialize_first [OF assms] obtain evs d iss
    where evs: "effects w' = effects w @ evs"
      and pre: "prefix (calls evs) (initialize_calls s d iss)"
      and ret: "r = Inr () \<longrightarrow>
                  calls evs = initialize_calls s d iss \<and>
                  RequestManager_get ext (requestManager s) uma2_path = Inr d \<and>
                  Issuer_discover ext (issuer d) = Inr iss"
    by blast
  from initialize_specified [OF assms] evs have spec: "calls evs = specified_calls ext s"
    by auto
  have "r = Inr () \<and> tokenSet s' = Some a0 \<and> calls evs = initialize_calls s d0 iss0"
    if "RequestManager_get ext (requestManager s) uma2_path = Inr d0"
      and "AdminClient_auth ext (client s) (client_credentials s) = (None, c0)"
      and "Issuer_discover ext (issuer d0) = Inr iss0"
      and "Client_grant ext
             \<lparr>client_issuer = iss0, client_id = clientId (credentials (options s)),
              client_secret = clientSecret (credentials (options s))\<rparr>
             (client_credentials s) (heap w) = (Inr a0, h0)"
    using initialize_answered [OF assms(1) that] assms(2) spec by simp
  with evs spec pre ret show ?thesis by blast
qed

theorem initialize_order_witness:
  "initialize (example_externals 1000) (example_service, constructed_world) =
     (Inr (), initialized_service, initialized_world) \<and>
   tokenSet initialized_service = Some 0 \<and>
   calls (drop (length (effects constructed_world)) (effects initialized_world)) =
     [Get \<lparr>request_baseUrl = ''https://sso.example.org/auth/realms/demo''\<rparr>
        ''/.well-known/uma2-configuration'',
      New_ResourceManager ''https://sso.example.org/auth/realms/demo/resource_set'',
      New_PermissionManager ''https://sso.example.org/auth/realms/demo/token'',
      Auth (''backend'', ''s3cr3t'', ''client_credentials''),
      Discover ''https://sso.example.org/auth/realms/demo'',
      New_IssuerClient (Issuer ''https://sso.example.org/auth/realms/demo'') ''backend'' ''s3cr3t'',
      Grant (''backend'', ''s3cr3t'', ''client_credentials'')] \<and>
   (\<exists>s' w'. initialize rejecting_externals (example_service, constructed_world) =
              (Inl (Rejection ''401''), s', w') \<and>
            calls (drop (length (effects constructed_world)) (effects w')) =
              [Get \<lparr>request_baseUrl = ''https://sso.example.org/auth/realms/demo''\<rparr>
                 ''/.well-known/uma2-configuration'',
               New_ResourceManager ''https://sso.example.org/auth/realms/demo/resource_set'',
               New_PermissionManager ''https://sso.example.org/auth/realms/demo/token'',
               Auth (''backend'', ''s3cr3t'', ''client_credentials'')])"
proof -
  have u: "umaConfiguration example_service = None"
    by (simp add: example_defs)
  have g: "RequestManager_get (example_externals 1000) (requestManager example_service)
             uma2_path = Inr example_uma"
    and a: "AdminClient_auth (example_externals 1000) (client example_service)
              (client_credentials example_service) =
            (None, (client example_service)\<lparr>accessToken := Some ''admin-1''\<rparr>)"
    and d: "Issuer_discover (example_externals 1000) (issuer example_uma) =
              Inr (Issuer (issuer example_uma))"
    and t: "Client_grant (example_externals 1000)
              \<lparr>client_issuer = Issuer (issuer example_uma),
               client_id = clientId (credentials (options example_service)),
               client_secret = clientSecret (credentials (options example_service))\<rparr>
              (client_credentials example_service) (heap constructed_world) =
            (Inr 0, (heap constructed_world)
                      \<lparr>cells := (cells (heap constructed_world))
                                  (0 := token ''access-1'' (Some ''refresh-1'') 1300),
                       allocated := 1\<rparr>)"
    by (simp_all add: example_externals_def store_token_def constructed_world_def
        empty_world_def)
  obtain r s' w' where i: "initialize (example_externals 1000)
                              (example_service, constructed_world) = (r, s', w')"
    by (cases "initialize (example_externals 1000) (example_service, constructed_world)")
  from initialize_order [OF u i, of example_uma _ "Issuer (issuer example_uma)" 0] g a d t
  obtain evs where evs: "effects w' = effects constructed_world @ evs"
    and ret: "r = Inr ()" and tok: "tokenSet s' = Some 0"
    and all: "calls evs = initialize_calls example_service example_uma
                            (Issuer (issuer example_uma))"
    by blast
  from initialize_example [of 1000] i have same: "s' = initialized_service" "w' = initialized_world"
    by simp_all
  from evs same
  have "calls (drop (length (effects constructed_world)) (effects initialized_world)) = calls evs"
    by simp
  with all
  have full: "calls (drop (length (effects constructed_world)) (effects initialized_world)) =
                initialize_calls example_service example_uma (Issuer (issuer example_uma))"
    by simp
  obtain r2 s2 w2 where j: "initialize rejecting_externals
                              (example_service, constructed_world) = (r2, s2, w2)"
    by (cases "initialize rejecting_externals (example_service, constructed_world)")
  from initialize_order [OF u j]
  obtain evs2 where evs2: "effects w2 = effects constructed_world @ evs2"
    and spec2: "calls evs2 = specified_calls rejecting_externals example_service"
    by blast
  from evs2 spec2
  have part: "calls (drop (length (effects constructed_world)) (effects w2)) =
                specified_calls rejecting_externals example_service"
    by simp
  from initialize_rejected_example j have r2: "r2 = Inl (Rejection ''401'')"
    by simp
  from i ret same tok full j r2 part show ?thesis
    by (simp add: initialize_calls_def specified_calls_def uma2_path_def client_credentials_def
        example_service_def example_options_def example_uma_def rejecting_externals_def
        example_externals_def)
qed

text \<open>
  C10. The guard of \<open>initialize\<close> looks at the \<open>umaConfiguration\<close> field alone. When a
  first call, on a service without a token set, has fetched the configuration document
  and is rejected afterwards (by the admin authentication, the discovery or the grant),
  the document is stored and the service has no token set; after any sequence of later
  calls of the two methods the service is still the one the rejection left, a call of
  \<open>initialize\<close> returns at once without effect, and no network call has been made.
\<close>

theorem initialize_not_retried:
  assumes "umaConfiguration s0 = None" and "tokenSet s0 = None"
    and "RequestManager_get ext (requestManager s0) uma2_path = Inr d"
    and "initialize ext (s0, w0) = (Inl e, s1, w1)"
  shows "umaConfiguration s1 = Some d \<and> tokenSet s1 = None \<and>
         fst (run cs (s1, w1)) = s1 \<and>
         initialize ext' (run cs (s1, w1)) = (Inr (), run cs (s1, w1)) \<and>
         network_calls (effects (snd (run cs (s1, w1)))) = network_calls (effects w1)"
proof -
  from initialize_rejected_after_fetch [OF assms(1,3,4)] assms(2)
  have u: "umaConfiguration s1 = Some d" and t: "tokenSet s1 = None"
    by simp_all
  from u have u': "umaConfiguration s1 \<noteq> None" by simp
  from run_without_token [OF u' t, of cs w1] obtain w'
    where r: "run cs (s1, w1) = (s1, w')"
      and n: "network_calls (effects w') = network_calls (effects w1)"
    by (cases "run cs (s1, w1)") auto
  from initialize_noop [OF u', of ext' w'] u t r n show ?thesis by simp
qed

theorem initialize_not_retried_witness:
  "(\<exists>s1 w1. initialize rejecting_externals (example_service, constructed_world) =
              (Inl (Rejection ''401''), s1, w1) \<and>
            umaConfiguration s1 = Some example_uma \<and> tokenSet s1 = None \<and>
            fst (run [(example_externals 1000, Initialize),
                      (example_externals 2000, RefreshGrant),
                      (example_externals 2000, Initialize)] (s1, w1)) = s1 \<and>
            initialize (example_externals 1000)
                (run [(example_externals 1000, Initialize),
                      (example_externals 2000, RefreshGrant),
                      (example_externals 2000, Initialize)] (s1, w1)) =
              (Inr (), run [(example_externals 1000, Initialize),
                            (example_externals 2000, RefreshGrant),
                            (example_externals 2000, Initialize)] (s1, w1)) \<and>
            network_calls (effects (snd (run [(example_externals 1000, Initialize),
                      (example_externals 2000, RefreshGrant),
                      (example_externals 2000, Initialize)] (s1, w1)))) =
              [Get (requestManager example_service) uma2_path,
               Auth (client_credentials example_service)])"
proof -
  let ?w1 = "constructed_world
               \<lparr>effects := effects constructed_world @
                           take 4 (initialize_calls example_service example_uma
                                     (Issuer (issuer example_uma)))\<rparr>"
  have 1: "umaConfiguration example_service = None"
    and 2: "tokenSet example_service = None"
    and 3: "RequestManager_get rejecting_externals (requestManager example_service) uma2_path =
              Inr example_uma"
    by (simp_all add: example_defs)
  have n: "network_calls (effects ?w1) =
             [Get (requestManager example_service) uma2_path,
              Auth (client_credentials example_service)]"
    by (simp add: initialize_calls_def network_calls_def constructed_world_def)
  note stuck = initialize_not_retried [OF 1 2 3 initialize_rejected_example,
      where ext' = "example_externals 1000"
        and cs = "[(example_externals 1000, Initialize), (example_externals 2000, RefreshGrant),
                   (example_externals 2000, Initialize)]"]
  from initialize_rejected_example stuck [unfolded n] show ?thesis by blast
qed

subsection \<open>refreshGrant\<close>

text \<open>
  C1. When the cached token set exists and is not expired, \<open>refreshGrant\<close> returns the
  reference it holds: the same record, no call to the provider, no logger line, and the
  service and the store as they were.
\<close>

theorem refreshGrant_returns_cached:
  assumes "tokenSet s = Some a" and "\<not> TokenSet_expired ext (cells (heap w) a)"
  shows "refreshGrant ext (s, w) = (Inr (Token a), s, w)"
  using assms by (simp add: refreshGrant.simps)

theorem refreshGrant_returns_cached_witness:
  "tokenSet initialized_service = Some 0 \<and>
   \<not> TokenSet_expired (example_externals 1000) (cells (heap initialized_world) 0) \<and>
   refreshGrant (example_externals 1000) (initialized_service, initialized_world) =
     (Inr (Token 0), initialized_service, initialized_world)"
proof -
  have t: "tokenSet initialized_service = Some 0"
    by (simp add: example_defs)
  have e: "\<not> TokenSet_expired (example_externals 1000) (cells (heap initialized_world) 0)"
    by (simp add: example_defs)
  from refreshGrant_returns_cached [OF t e] t e show ?thesis by simp
qed

text \<open>
  C2. When no token set exists, or one exists that is expired and has no refresh token
  (the field is absent or the empty string), \<open>refreshGrant\<close> returns \<open>null\<close> and throws
  nothing; the service and the store are as they were, and the only effects are the
  logger's lines, the last of them an error.
\<close>

theorem refreshGrant_missing_returns_null:
  assumes "tokenSet s = None \<or>
           (\<exists>a. tokenSet s = Some a \<and> TokenSet_expired ext (cells (heap w) a) \<and>
                (refresh_token (cells (heap w) a) = None \<or>
                 refresh_token (cells (heap w) a) = Some []))"
  shows "refreshGrant ext (s, w) =
           (Inr Null, s,
            w\<lparr>effects := effects w @
                 (if tokenSet s = None then [Logged LogError token_missing]
                  else [Logged Verbose grant_expired, Logged LogError refresh_token_missing])\<rparr>)"
  using assms by (auto simp: refreshGrant.simps emit_def truthy_string_def)

theorem refreshGrant_missing_returns_null_witness:
  "initialize (bare_externals 1000) (example_service, constructed_world) =
     (Inr (), initialized_service, bare_world) \<and>
   refreshGrant (example_externals 1000) (example_service, constructed_world) =
     (Inr Null, example_service,
      constructed_world\<lparr>effects := effects constructed_world @
                                      [Logged LogError token_missing]\<rparr>) \<and>
   refreshGrant (bare_externals 2000) (initialized_service, bare_world) =
     (Inr Null, initialized_service,
      bare_world\<lparr>effects := effects bare_world @
                   [Logged Verbose grant_expired, Logged LogError refresh_token_missing]\<rparr>)"
proof -
  have n: "tokenSet example_service = None"
    by (simp add: example_defs)
  have t: "tokenSet initialized_service = Some 0"
    by (simp add: example_defs)
  have e: "TokenSet_expired (bare_externals 2000) (cells (heap bare_world) 0)"
    by (simp add: example_defs bare_externals_def bare_world_def)
  have r: "refresh_token (cells (heap bare_world) 0) = None"
    by (simp add: example_defs bare_world_def)
  have a: "refreshGrant (example_externals 1000) (example_service, constructed_world) =
             (Inr Null, example_service,
              constructed_world\<lparr>effects := effects constructed_world @
                                              [Logged LogError token_missing]\<rparr>)"
    using refreshGrant_missing_returns_null
      [of example_service "example_externals 1000" constructed_world] n
    by simp
  have b: "refreshGrant (bare_externals 2000) (initialized_service, bare_world) =
             (Inr Null, initialized_service,
              bare_world\<lparr>effects := effects bare_world @
                   [Logged Verbose grant_expired, Logged LogError refresh_token_missing]\<rparr>)"
    using refreshGrant_missing_returns_null
      [of initialized_service "bare_externals 2000" bare_world] t e r
    by simp
  from initialize_bare_example [of 1000] a b show ?thesis by simp
qed

text \<open>
  C5. When the token set is expired, has a refresh token, the service has an issuer
  client, and the provider's refresh answers with a token set that has an access token,
  \<open>refreshGrant\<close> stores the new reference, sets the admin client's bearer token to the
  new access token and returns the new reference.
\<close>

theorem refreshGrant_propagates_access_token:
  assumes "tokenSet s = Some a" and "TokenSet_expired ext (cells (heap w) a)"
    and "refresh_token (cells (heap w) a) = Some rt" and "rt \<noteq> []"
    and "issuerClient s = Some ic"
    and "Client_refresh ext ic rt (heap w) = (Inr a', h)"
    and "access_token (cells h a') = Some t" and "t \<noteq> []"
  shows "refreshGrant ext (s, w) =
           (Inr (Token a'),
            s\<lparr>tokenSet := Some a', client := (client s)\<lparr>accessToken := Some t\<rparr>\<rparr>,
            \<lparr>heap = h,
             effects = effects w @ [Logged Verbose grant_expired, Refresh rt, SetAccessToken t]\<rparr>)"
  using assms by (simp add: refreshGrant.simps emit_def setAccessToken_def truthy_string_def)

theorem refreshGrant_propagates_access_token_witness:
  "accessToken (client initialized_service) = Some ''admin-1'' \<and>
   (\<exists>s' w'. refreshGrant (example_externals 2000) (initialized_service, initialized_world) =
              (Inr (Token 1), s', w') \<and>
            tokenSet s' = Some 1 \<and>
            accessToken (client s') = Some ''access-2'' \<and>
            access_token (cells (heap w') 1) = Some ''access-2'')"
proof -
  have 1: "tokenSet initialized_service = Some 0"
    and 2: "TokenSet_expired (example_externals 2000) (cells (heap initialized_world) 0)"
    and 3: "refresh_token (cells (heap initialized_world) 0) = Some ''refresh-1''"
    and 4: "''refresh-1'' \<noteq> []"
    and 5: "issuerClient initialized_service = Some example_client"
    and 6: "Client_refresh (example_externals 2000) example_client ''refresh-1''
              (heap initialized_world) =
            (Inr 1, (heap initialized_world)
                      \<lparr>cells := (cells (heap initialized_world))
                                  (1 := token ''access-2'' (Some ''refresh-2'') 1600),
                       allocated := 2\<rparr>)"
    by (simp_all add: example_defs)
  have 7: "access_token (cells ((heap initialized_world)
                      \<lparr>cells := (cells (heap initialized_world))
                                  (1 := token ''access-2'' (Some ''refresh-2'') 1600),
                       allocated := 2\<rparr>) 1) = Some ''access-2''"
    and 8: "''access-2'' \<noteq> []"
    by (simp_all add: token_def)
  have "accessToken (client initialized_service) = Some ''admin-1''"
    by (simp add: example_defs)
  with refreshGrant_propagates_access_token [OF 1 2 3 4 5 6 7 8] show ?thesis
    by (simp add: token_def)
qed

text \<open>
  C9. When the token set is expired and has a refresh token but the service has no
  issuer client, \<open>refreshGrant\<close> makes no refresh call (its one effect is the verbose
  logger line), overwrites the \<open>tokenSet\<close> field with \<open>undefined\<close>, leaves every other
  field, the admin client's bearer token among them, as it was, and returns \<open>undefined\<close>
  without throwing. (The statement is about the method at such a service; the methods
  themselves lead to none, see \<open>run_has_client\<close>.)
\<close>

theorem refreshGrant_without_issuer_client:
  assumes "tokenSet s = Some a" and "TokenSet_expired ext (cells (heap w) a)"
    and "refresh_token (cells (heap w) a) = Some rt" and "rt \<noteq> []"
    and "issuerClient s = None"
  shows "refreshGrant ext (s, w) =
           (Inr Undefined, s\<lparr>tokenSet := None\<rparr>,
            w\<lparr>effects := effects w @ [Logged Verbose grant_expired]\<rparr>)"
  using assms by (simp add: refreshGrant.simps emit_def truthy_string_def)

theorem refreshGrant_without_issuer_client_witness:
  "refreshGrant (example_externals 2000)
       (orphan_service, world_of (token ''access-1'' (Some ''refresh-1'') 1300)) =
     (Inr Undefined, example_service,
      (world_of (token ''access-1'' (Some ''refresh-1'') 1300))
        \<lparr>effects := [Logged Verbose grant_expired]\<rparr>)"
proof -
  have 1: "tokenSet orphan_service = Some 0"
    and 2: "TokenSet_expired (example_externals 2000)
              (cells (heap (world_of (token ''access-1'' (Some ''refresh-1'') 1300))) 0)"
    and 3: "refresh_token (cells (heap (world_of (token ''access-1'' (Some ''refresh-1'') 1300))) 0)
              = Some ''refresh-1''"
    and 4: "''refresh-1'' \<noteq> []"
    and 5: "issuerClient orphan_service = None"
    by (simp_all add: example_defs)
  from refreshGrant_without_issuer_client [OF 1 2 3 4 5] show ?thesis
    by (simp add: orphan_service_def example_service_def world_of_def)
qed

subsection \<open>What the methods leave alone\<close>

text \<open>
  C7. Provided the library's \<open>grant\<close> and \<open>refresh\<close> answer with a record of their own
  making and write to no existing one: at every service reached from the constructor by
  calls of the two methods, a call of \<open>initialize\<close> or of \<open>refreshGrant\<close> leaves the fields
  of every existing token record as they were, and it leaves the \<open>tokenSet\<close> field as it
  was or puts there a reference to a record created during the call.
\<close>

theorem tokenSet_replaced_never_written:
  assumes "KeycloakService_constructor ext0 opts w0 = (Inr s0, w1)"
    and "run cs (s0, w1) = (s, w)"
    and "library_allocates ext"
    and "perform ext c (s, w) = (s', w')"
  shows "records_kept w w' \<and> (tokenSet s' = tokenSet s \<or> new_record w w' (tokenSet s'))"
proof -
  from constructor_has_client [OF assms(1)] have "token_has_client (fst (s0, w1))"
    by simp
  from run_has_client [OF this, of cs] assms(2) have "token_has_client s"
    by simp
  then have "tokenSet s = None" if "issuerClient s = None"
    using that by (simp add: token_has_client_def)
  with perform_tokens [OF assms(3,4)] show ?thesis
    by auto
qed

theorem tokenSet_replaced_never_written_witness:
  "run [(example_externals 1000, Initialize)] (example_service, constructed_world) =
     (initialized_service, initialized_world) \<and>
   library_allocates (example_externals 2000) \<and>
   perform (example_externals 2000) RefreshGrant (initialized_service, initialized_world) =
     (refreshed_service, refreshed_world) \<and>
   records_kept initialized_world refreshed_world \<and>
   tokenSet refreshed_service \<noteq> tokenSet initialized_service \<and>
   new_record initialized_world refreshed_world (tokenSet refreshed_service)"
proof -
  have r: "run [(example_externals 1000, Initialize)] (example_service, constructed_world) =
             (initialized_service, initialized_world)"
    by (simp add: initialize_example)
  have l: "library_allocates (example_externals 2000)"
    by (rule library_allocates_example)
  have p: "perform (example_externals 2000) RefreshGrant (initialized_service, initialized_world) =
             (refreshed_service, refreshed_world)"
    by (simp add: refreshGrant_example)
  have t: "tokenSet refreshed_service \<noteq> tokenSet initialized_service"
    by (simp add: refreshed_service_def initialized_service_def)
  from tokenSet_replaced_never_written [OF constructor_example [of 1000] r l p] r l p t
  show ?thesis by simp
qed

text \<open>
  C8. The options are set by the constructor and no call changes them: after any
  sequence of calls of \<open>initialize\<close> and \<open>refreshGrant\<close> on a constructed service, returned
  or rejected, the \<open>options\<close> field is the value the constructor was given.
\<close>

theorem options_never_modified:
  assumes "KeycloakService_constructor ext opts w = (Inr s, w')"
  shows "options (fst (run cs (s, w'))) = opts"
proof -
  from constructor_returns [OF assms] have "options s = opts"
    by simp
  then show ?thesis by (simp add: run_options)
qed

theorem options_never_modified_witness:
  "KeycloakService_constructor (example_externals 1000) example_options empty_world =
     (Inr example_service, constructed_world) \<and>
   options (fst (run [(example_externals 1000, Initialize),
                      (example_externals 2000, RefreshGrant),
                      (rejecting_externals, Initialize)]
                   (example_service, constructed_world)))
     = example_options"
  using constructor_example [of 1000]
    options_never_modified [OF constructor_example [of 1000],
      of "[(example_externals 1000, Initialize), (example_externals 2000, RefreshGrant),
           (rejecting_externals, Initialize)]"]
  by (rule conjI)

end
